theory Spec2Isabelle
  imports Complex_Main
begin

section \<open>Data model of \<open>App/ShapeBase.py\<close>\<close>

text \<open>
  A component is a document object together with its \<open>ShapeBase\<close> proxy
  (\<open>obj.Proxy = self\<close>, \<open>self._obj = obj\<close>). The two objects are in one-to-one
  correspondence, so a component is one entry of the store, addressed by one identifier;
  \<open>x.Proxy\<close> and \<open>x._obj\<close> are the identity on identifiers. The entry holds the proxy's
  attributes (\<open>Type\<close>, \<open>version\<close>, \<open>_parent\<close>, \<open>_scratch\<close>), the two properties of the
  document object the file reads and writes (\<open>Group\<close>, \<open>Placement\<close>) and the overridable
  methods whose result the file uses (\<open>eligibleChild\<close>, \<open>getAxialLength\<close>,
  \<open>getForeRadius\<close>). Diagnostic output (\<open>print\<close>) is not part of the state.
\<close>

type_synonym nid = nat

datatype error = AttributeError | IndexError | KeyError

datatype Vector = FreeCAD_Vector (vec_x: real) (vec_y: real) (vec_z: real)

datatype Rotation = FreeCAD_Rotation real real real

datatype Placement = FreeCAD_Placement (Base: Vector) (Rotation_of: Rotation)

text \<open>
  \<open>Group = None\<close> stands for a document object without a \<open>Group\<close> property
  (\<open>hasattr(self._obj, "Group")\<close> is false). \<open>parent = None\<close> is \<open>self._parent is None\<close>.
\<close>

record 'v node =
  Type :: string
  version :: string
  parent :: "nid option"
  scratch :: "string \<rightharpoonup> 'v"
  Group :: "nid list option"
  Placement :: Placement
  eligibleChild :: "string \<Rightarrow> bool"
  getAxialLength :: real
  getForeRadius :: real

type_synonym 'v store = "nid \<Rightarrow> 'v node"

text \<open>
  \<open>__init__\<close>: the attributes the constructor sets, around the \<open>Group\<close> and \<open>Placement\<close>
  of the document object it wraps, with the methods of the base class
  (\<open>eligibleChild\<close> returns \<open>False\<close>, the two extents return \<open>0.0\<close>).
\<close>

definition ShapeBase_init :: "nid list option \<Rightarrow> Placement \<Rightarrow> 'v node" where
  "ShapeBase_init grp pl =
     \<lparr>Type = ''RocketComponent'', version = ''3.0'', parent = None, scratch = Map.empty,
      Group = grp, Placement = pl, eligibleChild = (\<lambda>childType. False),
      getAxialLength = 0, getForeRadius = 0\<rparr>"

section \<open>Persistence: \<open>__getstate__\<close> and \<open>__setstate__\<close>\<close>

definition getstate :: "'v node \<Rightarrow> string \<times> string" where
  "getstate self = (Type self, version self)"

text \<open>\<open>if state:\<close> is false for \<open>None\<close> and for the empty tuple, both modelled by \<open>None\<close>.\<close>

definition setstate :: "'v node \<Rightarrow> (string \<times> string) option \<Rightarrow> 'v node" where
  "setstate self state =
     (case state of
        None \<Rightarrow> self
      | Some s \<Rightarrow> self\<lparr>Type := fst s, version := snd s\<rparr>)"

text \<open>
  Modelled from the spec: the component as the host hands it to \<open>__setstate__\<close> on reload,
  which is not part of \<open>ShapeBase.py\<close>. The spec says that parent, children and scratch
  are absent immediately after reload, until the host re-attaches the document graph.
\<close>

definition reloaded_blank :: "'v node" where
  "reloaded_blank =
     ShapeBase_init None
       (FreeCAD_Placement (FreeCAD_Vector 0 0 0) (FreeCAD_Rotation 0 0 0))"

definition reload :: "'v node \<Rightarrow> 'v node" where
  "reload self = setstate reloaded_blank (Some (getstate self))"

section \<open>Scratch store\<close>

definition setScratch :: "'v node \<Rightarrow> string \<Rightarrow> 'v \<Rightarrow> 'v node" where
  "setScratch self name val = self\<lparr>scratch := (scratch self)(name \<mapsto> val)\<rparr>"

text \<open>
  \<open>self._scratch[name]\<close> raises \<open>KeyError\<close> on a missing key. The component is returned
  beside the result, so that what the call leaves behind can be stated.
\<close>

definition getScratch :: "'v node \<Rightarrow> string \<Rightarrow> (error + 'v) \<times> 'v node" where
  "getScratch self name =
     (case scratch self name of
        None \<Rightarrow> (Inl KeyError, self)
      | Some v \<Rightarrow> (Inr v, self))"

definition isScratch :: "'v node \<Rightarrow> string \<Rightarrow> bool" where
  "isScratch self name = (name \<in> dom (scratch self))"

text \<open>A run of \<open>setScratch\<close> calls, oldest first.\<close>

fun setScratch_all :: "'v node \<Rightarrow> (string \<times> 'v) list \<Rightarrow> 'v node" where
  "setScratch_all self [] = self"
| "setScratch_all self ((name, val) # rest) = setScratch_all (setScratch self name val) rest"

text \<open>The value of the last call in the run that names \<open>name\<close>, if there is one.\<close>

fun last_stored :: "(string \<times> 'v) list \<Rightarrow> string \<Rightarrow> 'v option" where
  "last_stored [] name = None"
| "last_stored ((k, v) # rest) name =
     (case last_stored rest name of
        Some w \<Rightarrow> Some w
      | None \<Rightarrow> (if k = name then Some v else None))"

section \<open>Axis navigation: \<open>getPrevious\<close> and \<open>getNext\<close>\<close>

text \<open>
  The scan of \<open>getPrevious\<close>: \<open>for index in range(len(Group))\<close>, returning
  \<open>Group[index - 1]\<close> at the first index above 0 that holds the reference. \<open>None\<close> is the
  loop running to its end, after which the method returns \<open>self._obj\<close>.
\<close>

function prevScan :: "nid list \<Rightarrow> nid \<Rightarrow> nat \<Rightarrow> nid option" where
  "prevScan grp obj index =
     (if index < length grp then
        (if grp ! index = obj \<and> index > 0 then Some (grp ! (index - 1))
         else prevScan grp obj (Suc index))
      else None)"
  by pat_completeness auto
termination
  by (relation "measure (\<lambda>(grp, obj, index). length grp - index)") auto

text \<open>The scan of \<open>getNext\<close>: the match counts when \<open>index < len(Group) - 1\<close>.\<close>

function nextScan :: "nid list \<Rightarrow> nid \<Rightarrow> nat \<Rightarrow> nid option" where
  "nextScan grp obj index =
     (if index < length grp then
        (if grp ! index = obj \<and> Suc index < length grp then Some (grp ! (Suc index))
         else nextScan grp obj (Suc index))
      else None)"
  by pat_completeness auto
termination
  by (relation "measure (\<lambda>(grp, obj, index). length grp - index)") auto

declare prevScan.simps [simp del] nextScan.simps [simp del]

text \<open>
  Both methods call themselves on the parent, and a parent chain in the store may be
  cyclic, so they take fuel: one unit per call, \<open>None\<close> when it runs out. The result of
  the method is \<open>None\<close> for Python's \<open>None\<close> and \<open>Some x\<close> for a document object. The
  store is threaded through and returned beside the result.
\<close>

fun getPrevious ::
  "nat \<Rightarrow> 'v store \<Rightarrow> nid \<Rightarrow> nid option \<Rightarrow> (nid option \<times> 'v store) option" where
  "getPrevious 0 st self obj = None"
| "getPrevious (Suc fuel) st self None =
     (case parent (st self) of
        Some p \<Rightarrow> getPrevious fuel st p (Some self)
      | None \<Rightarrow> Some (None, st))"
| "getPrevious (Suc fuel) st self (Some obj) =
     (case Group (st self) of
        Some grp \<Rightarrow>
          (case prevScan grp obj 0 of
             Some found \<Rightarrow> Some (Some found, st)
           | None \<Rightarrow> Some (Some self, st))
      | None \<Rightarrow>
          (case parent (st self) of
             Some p \<Rightarrow> getPrevious fuel st p (Some obj)
           | None \<Rightarrow> Some (None, st)))"

fun getNext ::
  "nat \<Rightarrow> 'v store \<Rightarrow> nid \<Rightarrow> nid option \<Rightarrow> (nid option \<times> 'v store) option" where
  "getNext 0 st self obj = None"
| "getNext (Suc fuel) st self None =
     (case parent (st self) of
        Some p \<Rightarrow> getNext fuel st p (Some self)
      | None \<Rightarrow> Some (None, st))"
| "getNext (Suc fuel) st self (Some obj) =
     (case Group (st self) of
        Some grp \<Rightarrow>
          (case nextScan grp obj 0 of
             Some found \<Rightarrow> Some (Some found, st)
           | None \<Rightarrow> Some (Some self, st))
      | None \<Rightarrow>
          (case parent (st self) of
             Some p \<Rightarrow> getNext fuel st p (Some obj)
           | None \<Rightarrow> Some (None, st)))"

text \<open>
  \<open>groupless_path st s ps a\<close>: the parent pointers lead from \<open>s\<close> through \<open>ps\<close> to \<open>a\<close>
  (the last of \<open>ps\<close>, or \<open>s\<close> itself when \<open>ps\<close> is empty), and every component before \<open>a\<close>
  has no \<open>Group\<close> property.
\<close>

fun groupless_path :: "'v store \<Rightarrow> nid \<Rightarrow> nid list \<Rightarrow> nid \<Rightarrow> bool" where
  "groupless_path st s [] a = (s = a)"
| "groupless_path st s (p # ps) a =
     (Group (st s) = None \<and> parent (st s) = Some p \<and> groupless_path st p ps a)"

text \<open>\<open>reaches_root k st n\<close>: at most \<open>k\<close> parent pointers lead from \<open>n\<close> to a root.\<close>

fun reaches_root :: "nat \<Rightarrow> 'v store \<Rightarrow> nid \<Rightarrow> bool" where
  "reaches_root 0 st n = (parent (st n) = None)"
| "reaches_root (Suc k) st n =
     (case parent (st n) of None \<Rightarrow> True | Some p \<Rightarrow> reaches_root k st p)"

section \<open>Placement propagation\<close>

text \<open>
  \<open>positionChild\<close> of the base class is \<open>pass\<close>. Each call is recorded with its receiver
  and its five arguments, so that what \<open>positionChildren\<close> invokes can be stated.
\<close>

datatype call = PositionChild nid nid nid real real real

definition positionChild ::
  "'v store \<Rightarrow> nid \<Rightarrow> nid \<Rightarrow> nid \<Rightarrow> real \<Rightarrow> real \<Rightarrow> real \<Rightarrow> 'v store" where
  "positionChild st self obj parent_obj parentBase parentLength parentRadius = st"

fun positionChildren_loop ::
  "'v store \<Rightarrow> nid \<Rightarrow> real \<Rightarrow> nid list \<Rightarrow> call list \<Rightarrow> 'v store \<times> call list" where
  "positionChildren_loop st self partBase [] calls = (st, calls)"
| "positionChildren_loop st self partBase (child # rest) calls =
     positionChildren_loop
       (positionChild st child child self partBase
          (getAxialLength (st self)) (getForeRadius (st self)))
       self partBase rest
       (calls @ [PositionChild child child self partBase
                   (getAxialLength (st self)) (getForeRadius (st self))])"

definition positionChildren :: "'v store \<Rightarrow> nid \<Rightarrow> real \<Rightarrow> 'v store \<times> call list" where
  "positionChildren st self partBase =
     (case Group (st self) of
        None \<Rightarrow> (st, [])
      | Some grp \<Rightarrow> positionChildren_loop st self partBase grp [])"

definition setAxialPosition :: "'v store \<Rightarrow> nid \<Rightarrow> real \<Rightarrow> 'v store \<times> call list" where
  "setAxialPosition st self partBase =
     (let base = Base (Placement (st self));
          st1 = st(self := (st self)
                  \<lparr>Placement := FreeCAD_Placement
                     (FreeCAD_Vector partBase (vec_y base) (vec_z base))
                     (FreeCAD_Rotation 0 0 0)\<rparr>)
      in positionChildren st1 self partBase)"

section \<open>Tree reordering: \<open>moveUp\<close> and \<open>moveDown\<close>\<close>

text \<open>
  \<open>Group\<close> is a Python list held by the document object: \<open>Group.pop(i)\<close> and
  \<open>group[i] = x\<close> change it in place, and \<open>obj.Group = group\<close> stores the list it was
  read from. A \<open>for\<close> loop over \<open>self._obj.Group\<close> therefore sees the list as the body
  left it, which the loops below do by reading the group from the store at every turn.
\<close>

datatype 'a outcome = Returned 'a | Completed 'a

definition pop :: "nat \<Rightarrow> 'a list \<Rightarrow> error + 'a list" where
  "pop i xs = (if i < length xs then Inr (take i xs @ drop (Suc i) xs) else Inl IndexError)"

definition Group_pop :: "'v store \<Rightarrow> nid \<Rightarrow> nat \<Rightarrow> error + 'v store" where
  "Group_pop st self i =
     (case Group (st self) of
        None \<Rightarrow> Inl AttributeError
      | Some grp \<Rightarrow>
          (case pop i grp of
             Inl e \<Rightarrow> Inl e
           | Inr grp' \<Rightarrow> Inr (st(self := (st self)\<lparr>Group := Some grp'\<rparr>))))"

definition setParent :: "'v store \<Rightarrow> nid \<Rightarrow> nid option \<Rightarrow> 'v store" where
  "setParent st self obj = st(self := (st self)\<lparr>parent := obj\<rparr>)"

text \<open>
  Modelled from the spec: \<open>addObject\<close> of the host's document object, which is not part
  of \<open>ShapeBase.py\<close>. The spec says it appends a child to the group; an object without
  a \<open>Group\<close> has no such method.
\<close>

definition addObject :: "'v store \<Rightarrow> nid \<Rightarrow> nid \<Rightarrow> error + 'v store" where
  "addObject st grp_obj obj =
     (case Group (st grp_obj) of
        None \<Rightarrow> Inl AttributeError
      | Some grp \<Rightarrow> Inr (st(grp_obj := (st grp_obj)\<lparr>Group := Some (grp @ [obj])\<rparr>)))"

text \<open>
  \<open>self._obj.Group.pop(i); obj.Proxy.setParent(parent); parent.addObject(obj)\<close>:
  the three statements of lines 217-219 and 258-260, where \<open>i\<close> is the literal \<open>0\<close>.
\<close>

definition reparent :: "'v store \<Rightarrow> nid \<Rightarrow> nid \<Rightarrow> nat \<Rightarrow> nid \<Rightarrow> error + 'v store" where
  "reparent st self obj i new_parent =
     (case Group_pop st self i of
        Inl e \<Rightarrow> Inl e
      | Inr st1 \<Rightarrow> addObject (setParent st1 obj (Some new_parent)) new_parent obj)"

text \<open>Lines 182-185: pop at \<open>index\<close>, then the new parent is \<open>Group[index - 1]\<close>.\<close>

definition addToPrevious :: "'v store \<Rightarrow> nid \<Rightarrow> nid \<Rightarrow> nat \<Rightarrow> error + 'v store" where
  "addToPrevious st self obj index =
     (case Group_pop st self index of
        Inl e \<Rightarrow> Inl e
      | Inr st1 \<Rightarrow>
          (case Group (st1 self) of
             None \<Rightarrow> Inl AttributeError
           | Some grp \<Rightarrow>
               if index - 1 < length grp
               then addObject (setParent st1 obj (Some (grp ! (index - 1))))
                      (grp ! (index - 1)) obj
               else Inl IndexError))"

text \<open>Lines 189-193.\<close>

definition swapPrevious :: "'v store \<Rightarrow> nid \<Rightarrow> nid \<Rightarrow> nat \<Rightarrow> error + 'v store" where
  "swapPrevious st self obj index =
     (case Group (st self) of
        None \<Rightarrow> Inl AttributeError
      | Some grp \<Rightarrow>
          if index - 1 < length grp \<and> index < length grp
          then Inr (st(self := (st self)
                 \<lparr>Group := Some ((grp[index - 1 := obj])[index := grp ! (index - 1)])\<rparr>))
          else Inl IndexError)"

text \<open>Lines 248-252.\<close>

definition swapNext :: "'v store \<Rightarrow> nid \<Rightarrow> nid \<Rightarrow> nat \<Rightarrow> error + 'v store" where
  "swapNext st self obj index =
     (case Group (st self) of
        None \<Rightarrow> Inl AttributeError
      | Some grp \<Rightarrow>
          if Suc index < length grp
          then Inr (st(self := (st self)
                 \<lparr>Group := Some ((grp[Suc index := obj])[index := grp ! Suc index])\<rparr>))
          else Inl IndexError)"

text \<open>
  The inner loop of lines 200-210 over \<open>grandparent.Group\<close>: \<open>Inl index\<close> when the test
  \<open>child.Proxy == parent and grandparent.Proxy.eligibleChild(...)\<close> holds at \<open>index\<close>;
  \<open>Inr index\<close> when the loop ends, with the value it leaves in \<open>index\<close>.
\<close>

fun grandparentScan :: "nid list \<Rightarrow> nid \<Rightarrow> bool \<Rightarrow> nat \<Rightarrow> nat + nat" where
  "grandparentScan [] self_id accepts index = Inr index"
| "grandparentScan (child # rest) self_id accepts index =
     (if child = self_id \<and> accepts then Inl index
      else grandparentScan rest self_id accepts (Suc index))"

text \<open>Lines 205-208: \<open>setParent\<close> is not called here.\<close>

definition addToGrandparent ::
  "'v store \<Rightarrow> nid \<Rightarrow> nid \<Rightarrow> nid \<Rightarrow> nat \<Rightarrow> error + 'v store" where
  "addToGrandparent st self obj grandparent index =
     (case Group_pop st self 0 of
        Inl e \<Rightarrow> Inl e
      | Inr st1 \<Rightarrow>
          (case Group (st1 grandparent) of
             None \<Rightarrow> Inl AttributeError
           | Some grp \<Rightarrow>
               Inr (st1(grandparent := (st1 grandparent)
                      \<lparr>Group := Some (take index grp @ obj # drop index grp)\<rparr>))))"

text \<open>
  The \<open>while parent is not None\<close> loops of lines 215-221 and 256-262, up to the point
  where they find an eligible ancestor: \<open>Some (Some a)\<close> is the ancestor found,
  \<open>Some None\<close> the loop ending at the root, \<open>None\<close> the fuel running out.
\<close>

fun eligibleAncestor ::
  "nat \<Rightarrow> 'v store \<Rightarrow> string \<Rightarrow> nid option \<Rightarrow> nid option option" where
  "eligibleAncestor fuel st childType None = Some None"
| "eligibleAncestor 0 st childType (Some p) = None"
| "eligibleAncestor (Suc fuel) st childType (Some p) =
     (if eligibleChild (st p) childType then Some (Some p)
      else eligibleAncestor fuel st childType (parent (st p)))"

text \<open>
  The \<open>for child in self._obj.Group\<close> loop of \<open>_moveChildUp\<close>. \<open>pos\<close> is the position of
  the list iterator and \<open>index\<close> the variable of that name, which the inner loop
  overwrites. \<open>Returned\<close> is a \<open>return\<close> inside the loop, \<open>Completed\<close> the loop running
  to its end.
\<close>

fun moveChildUp_loop ::
  "nat \<Rightarrow> 'v store \<Rightarrow> nid \<Rightarrow> nid \<Rightarrow> nat \<Rightarrow> nat \<Rightarrow> (error + 'v store outcome) option" where
  "moveChildUp_loop 0 st self obj pos index = None"
| "moveChildUp_loop (Suc fuel) st self obj pos index =
     (case Group (st self) of
        None \<Rightarrow> Some (Inl AttributeError)
      | Some grp \<Rightarrow>
          if length grp \<le> pos then Some (Inr (Completed st))
          else if grp ! pos \<noteq> obj then moveChildUp_loop fuel st self obj (Suc pos) (Suc index)
          else if index > 0 then
            (if length grp \<le> index - 1 then Some (Inl IndexError)
             else if eligibleChild (st (grp ! (index - 1))) (Type (st obj)) then
               (case addToPrevious st self obj index of
                  Inl e \<Rightarrow> Some (Inl e)
                | Inr st' \<Rightarrow> moveChildUp_loop fuel st' self obj (Suc pos) (Suc index))
             else
               (case swapPrevious st self obj index of
                  Inl e \<Rightarrow> Some (Inl e)
                | Inr st' \<Rightarrow> Some (Inr (Returned st'))))
          else
            (case parent (st self) of
               None \<Rightarrow> moveChildUp_loop fuel st self obj (Suc pos) (Suc 0)
             | Some grandparent \<Rightarrow>
                 (case Group (st grandparent) of
                    None \<Rightarrow> Some (Inl AttributeError)
                  | Some ggrp \<Rightarrow>
                      (case grandparentScan ggrp self
                              (eligibleChild (st grandparent) (Type (st obj))) 0 of
                         Inl j \<Rightarrow>
                           (case addToGrandparent st self obj grandparent j of
                              Inl e \<Rightarrow> Some (Inl e)
                            | Inr st' \<Rightarrow> Some (Inr (Returned st')))
                       | Inr index' \<Rightarrow>
                           (case eligibleAncestor fuel st (Type (st obj)) (Some grandparent) of
                              None \<Rightarrow> None
                            | Some (Some a) \<Rightarrow>
                                (case reparent st self obj 0 a of
                                   Inl e \<Rightarrow> Some (Inl e)
                                 | Inr st' \<Rightarrow> Some (Inr (Returned st')))
                            | Some None \<Rightarrow>
                                moveChildUp_loop fuel st self obj (Suc pos) (Suc index'))))))"

fun moveChildUp :: "nat \<Rightarrow> 'v store \<Rightarrow> nid \<Rightarrow> nid \<Rightarrow> (error + 'v store) option" where
  "moveChildUp 0 st self obj = None"
| "moveChildUp (Suc fuel) st self obj =
     (case (case Group (st self) of
              None \<Rightarrow> Some (Inr (Completed st))
            | Some grp \<Rightarrow> moveChildUp_loop fuel st self obj 0 0) of
        None \<Rightarrow> None
      | Some (Inl e) \<Rightarrow> Some (Inl e)
      | Some (Inr (Returned st')) \<Rightarrow> Some (Inr st')
      | Some (Inr (Completed st')) \<Rightarrow>
          (case parent (st' self) of
             Some p \<Rightarrow> moveChildUp fuel st' p self
           | None \<Rightarrow> Some (Inr st')))"

definition moveUp :: "nat \<Rightarrow> 'v store \<Rightarrow> nid \<Rightarrow> (error + 'v store) option" where
  "moveUp fuel st self =
     (case parent (st self) of
        Some p \<Rightarrow> moveChildUp fuel st p self
      | None \<Rightarrow> Some (Inr st))"

text \<open>
  The loop of \<open>_moveChildDown\<close>; \<open>last_index\<close> is \<open>len(self._obj.Group) - 1\<close>, computed
  once before the loop (\<open>-1\<close> for an empty group).
\<close>

fun moveChildDown_loop ::
  "nat \<Rightarrow> 'v store \<Rightarrow> nid \<Rightarrow> nid \<Rightarrow> int \<Rightarrow> nat \<Rightarrow> (error + 'v store outcome) option" where
  "moveChildDown_loop 0 st self obj last_index index = None"
| "moveChildDown_loop (Suc fuel) st self obj last_index index =
     (case Group (st self) of
        None \<Rightarrow> Some (Inl AttributeError)
      | Some grp \<Rightarrow>
          if length grp \<le> index then Some (Inr (Completed st))
          else if grp ! index \<noteq> obj
            then moveChildDown_loop fuel st self obj last_index (Suc index)
          else if int index < last_index then
            (case swapNext st self obj index of
               Inl e \<Rightarrow> Some (Inl e)
             | Inr st' \<Rightarrow> Some (Inr (Returned st')))
          else
            (case eligibleAncestor fuel st (Type (st obj)) (parent (st self)) of
               None \<Rightarrow> None
             | Some (Some a) \<Rightarrow>
                 (case reparent st self obj 0 a of
                    Inl e \<Rightarrow> Some (Inl e)
                  | Inr st' \<Rightarrow> Some (Inr (Returned st')))
             | Some None \<Rightarrow> moveChildDown_loop fuel st self obj last_index (Suc index)))"

text \<open>The call after the loop is \<open>_moveChildUp\<close>, as line 266 has it.\<close>

fun moveChildDown :: "nat \<Rightarrow> 'v store \<Rightarrow> nid \<Rightarrow> nid \<Rightarrow> (error + 'v store) option" where
  "moveChildDown 0 st self obj = None"
| "moveChildDown (Suc fuel) st self obj =
     (case (case Group (st self) of
              None \<Rightarrow> Some (Inr (Completed st))
            | Some grp \<Rightarrow>
                moveChildDown_loop fuel st self obj (int (length grp) - 1) 0) of
        None \<Rightarrow> None
      | Some (Inl e) \<Rightarrow> Some (Inl e)
      | Some (Inr (Returned st')) \<Rightarrow> Some (Inr st')
      | Some (Inr (Completed st')) \<Rightarrow>
          (case parent (st' self) of
             Some p \<Rightarrow> moveChildUp fuel st' p self
           | None \<Rightarrow> Some (Inr st')))"

definition moveDown :: "nat \<Rightarrow> 'v store \<Rightarrow> nid \<Rightarrow> (error + 'v store) option" where
  "moveDown fuel st self =
     (case parent (st self) of
        Some p \<Rightarrow> moveChildDown fuel st p self
      | None \<Rightarrow> Some (Inr st))"

section \<open>Observing a tree\<close>



text \<open>The parent pointer and the children of each of \<open>ns\<close>, in the result of an operation.\<close>

definition shapes ::
  "nid list \<Rightarrow> (error + 'v store) option \<Rightarrow>
   (error + (nid option \<times> nid list option) list) option" where
  "shapes ns r = map_option (map_sum id (\<lambda>st. map (\<lambda>n. (parent (st n), Group (st n))) ns)) r"

section \<open>Example trees\<close>

definition component ::
  "string \<Rightarrow> nid option \<Rightarrow> nid list option \<Rightarrow> (string \<Rightarrow> bool) \<Rightarrow> unit node" where
  "component ty par grp acc =
     (ShapeBase_init grp (FreeCAD_Placement (FreeCAD_Vector 0 0 0) (FreeCAD_Rotation 0 0 0)))
       \<lparr>Type := ty, parent := par, eligibleChild := acc\<rparr>"


text \<open>The same rocket with the fin first in the stage.\<close>

definition tree_up :: "unit store" where
  "tree_up = (\<lambda>n. component ''RocketComponent'' None None (\<lambda>t. False))
     (0 := component ''Rocket'' None (Some [1]) (\<lambda>t. t = ''Fin''),
      1 := component ''Stage'' (Some 0) (Some [2, 3]) (\<lambda>t. False),
      2 := component ''Fin'' (Some 1) None (\<lambda>t. False),
      3 := component ''Tube'' (Some 1) None (\<lambda>t. False))"

text \<open>
  A rocket 0 holding nose cone 1 and stage 2; the stage holds tube 3, which accepts
  fins and has no children yet, and fin 4.
\<close>

definition tree_merge :: "unit store" where
  "tree_merge = (\<lambda>n. component ''RocketComponent'' None None (\<lambda>t. False))
     (0 := component ''Rocket'' None (Some [1, 2]) (\<lambda>t. False),
      1 := component ''NoseCone'' (Some 0) None (\<lambda>t. False),
      2 := component ''Stage'' (Some 0) (Some [3, 4]) (\<lambda>t. False),
      3 := component ''Tube'' (Some 2) (Some []) (\<lambda>t. t = ''Fin''),
      4 := component ''Fin'' (Some 2) None (\<lambda>t. False))"

text \<open>
  A rocket 0 holding 1, 2 and 3; 3 holds 4; 1, 2 and 4 have no \<open>Group\<close>. Every other
  identifier, 6 for one, is a component without parent and without \<open>Group\<close>.
\<close>

definition tree_nav :: "unit store" where
  "tree_nav = (\<lambda>n. component ''RocketComponent'' None None (\<lambda>t. False))
     (0 := component ''Rocket'' None (Some [1, 2, 3]) (\<lambda>t. False),
      1 := component ''NoseCone'' (Some 0) None (\<lambda>t. False),
      2 := component ''Tube'' (Some 0) None (\<lambda>t. False),
      3 := component ''Stage'' (Some 0) (Some [4]) (\<lambda>t. False),
      4 := component ''Fin'' (Some 3) None (\<lambda>t. False))"

text \<open>A tube 0 at \<open>(1, 2, 3)\<close>, turned by 90 degrees, holding 1 and 2.\<close>

definition tree_placed :: "unit store" where
  "tree_placed = (\<lambda>n. component ''RocketComponent'' None None (\<lambda>t. False))
     (0 := (component ''Tube'' None (Some [1, 2]) (\<lambda>t. False))
             \<lparr>Placement := FreeCAD_Placement (FreeCAD_Vector 1 2 3) (FreeCAD_Rotation 90 0 0)\<rparr>,
      1 := component ''Fin'' (Some 0) None (\<lambda>t. False),
      2 := component ''Fin'' (Some 0) None (\<lambda>t. False))"

section \<open>Scratch store: lookup\<close>

lemma scratch_setScratch_all:
  "scratch (setScratch_all self ops) name =
     (case last_stored ops name of Some w \<Rightarrow> Some w | None \<Rightarrow> scratch self name)"
proof (induction ops arbitrary: self)
  case Nil
  show ?case by simp
next
  case (Cons kv rest)
  obtain k v where kv: "kv = (k, v)" by (cases kv)
  show ?case
    by (simp add: kv Cons.IH setScratch_def split: option.split)
qed

lemma setScratch_all_frame:
  "Type (setScratch_all self ops) = Type self \<and>
   version (setScratch_all self ops) = version self \<and>
   parent (setScratch_all self ops) = parent self \<and>
   Group (setScratch_all self ops) = Group self \<and>
   Placement (setScratch_all self ops) = Placement self"
  by (induction self ops rule: setScratch_all.induct) (simp_all add: setScratch_def)

text \<open>
  C8. \<open>getScratch(name)\<close> raises the lookup error (\<open>KeyError\<close>) exactly when
  \<open>isScratch(name)\<close> is false, and it raises nothing else; after any run of \<open>setScratch\<close>
  calls that stored under \<open>name\<close>, \<open>isScratch(name)\<close> is true and \<open>getScratch(name)\<close>
  returns the value of the most recent of them; a run that never stored under \<open>name\<close>
  leaves the answer for \<open>name\<close> as it was; and \<open>getScratch\<close>, failing or not, leaves the
  component as it found it.
\<close>

theorem getScratch_fails_iff_not_isScratch:
  "((\<exists>e. fst (getScratch self name) = Inl e) = (\<not> isScratch self name)) \<and>
   ((fst (getScratch self name) = Inl KeyError) = (\<not> isScratch self name)) \<and>
   (isScratch self name = (\<exists>v. fst (getScratch self name) = Inr v)) \<and>
   fst (getScratch (setScratch self name val) name) = Inr val \<and>
   isScratch (setScratch self name val) name \<and>
   (case last_stored ops name of
      Some w \<Rightarrow> isScratch (setScratch_all self ops) name \<and>
                fst (getScratch (setScratch_all self ops) name) = Inr w
    | None \<Rightarrow> isScratch (setScratch_all self ops) name = isScratch self name \<and>
              fst (getScratch (setScratch_all self ops) name) = fst (getScratch self name)) \<and>
   snd (getScratch self name) = self"
proof -
  have a: "(\<exists>e. fst (getScratch self name) = Inl e) = (\<not> isScratch self name)"
    by (auto simp: getScratch_def isScratch_def split: option.splits)
  have b: "(fst (getScratch self name) = Inl KeyError) = (\<not> isScratch self name)"
    by (auto simp: getScratch_def isScratch_def split: option.splits)
  have c: "isScratch self name = (\<exists>v. fst (getScratch self name) = Inr v)"
    by (auto simp: getScratch_def isScratch_def split: option.splits)
  have d: "fst (getScratch (setScratch self name val) name) = Inr val"
    by (simp add: getScratch_def setScratch_def)
  have e: "isScratch (setScratch self name val) name"
    by (simp add: isScratch_def setScratch_def)
  have f: "case last_stored ops name of
      Some w \<Rightarrow> isScratch (setScratch_all self ops) name \<and>
                fst (getScratch (setScratch_all self ops) name) = Inr w
    | None \<Rightarrow> isScratch (setScratch_all self ops) name = isScratch self name \<and>
              fst (getScratch (setScratch_all self ops) name) = fst (getScratch self name)"
    by (simp add: getScratch_def isScratch_def dom_def scratch_setScratch_all
             split: option.split)
  have g: "snd (getScratch self name) = self"
    by (simp add: getScratch_def split: option.split)
  from a b c d e f g show ?thesis by blast
qed

theorem getScratch_fails_iff_not_isScratch_witness:
  "fst (getScratch (setScratch_all (ShapeBase_init None
          (FreeCAD_Placement (FreeCAD_Vector 0 0 0) (FreeCAD_Rotation 0 0 0)) :: nat node)
        [(''k'', 1), (''j'', 2), (''k'', 3)]) ''k'') = Inr 3 \<and>
   fst (getScratch (ShapeBase_init None
          (FreeCAD_Placement (FreeCAD_Vector 0 0 0) (FreeCAD_Rotation 0 0 0)) :: nat node)
        ''k'') = Inl KeyError"
  using getScratch_fails_iff_not_isScratch
    [of "ShapeBase_init None
          (FreeCAD_Placement (FreeCAD_Vector 0 0 0) (FreeCAD_Rotation 0 0 0)) :: nat node"
        "''k''" 0 "[(''k'', 1), (''j'', 2), (''k'', 3)]"]
  by (simp add: isScratch_def ShapeBase_init_def)

section \<open>Persistence: round trip\<close>

text \<open>
  C9. The persisted state is the pair of the type tag and the schema version and nothing
  else; \<open>__setstate__\<close> of that pair writes \<open>Type\<close> and \<open>version\<close> and no other attribute
  of the component it is applied to; so a component reloaded from its persisted state has
  the original \<open>Type\<close> and \<open>version\<close>, and no parent, no children and an empty scratch
  store.
\<close>

theorem reload_roundtrip:
  "getstate self = (Type self, version self) \<and>
   Type (setstate fresh (Some (getstate self))) = Type self \<and>
   version (setstate fresh (Some (getstate self))) = version self \<and>
   parent (setstate fresh (Some (getstate self))) = parent fresh \<and>
   Group (setstate fresh (Some (getstate self))) = Group fresh \<and>
   scratch (setstate fresh (Some (getstate self))) = scratch fresh \<and>
   Placement (setstate fresh (Some (getstate self))) = Placement fresh \<and>
   Type (reload self) = Type self \<and>
   version (reload self) = version self \<and>
   parent (reload self) = None \<and>
   Group (reload self) = None \<and>
   scratch (reload self) = Map.empty"
  by (simp add: getstate_def setstate_def reload_def reloaded_blank_def ShapeBase_init_def)

section \<open>Axis navigation: the scans\<close>

lemma nextScan_adjacent:
  assumes "distinct grp" "Suc i < length grp" "j \<le> i"
  shows "nextScan grp (grp ! i) j = Some (grp ! Suc i)"
  using assms
proof (induction "i - j" arbitrary: j)
  case 0
  then have "j = i" by simp
  with 0 show ?case by (simp add: nextScan.simps)
next
  case (Suc d)
  then have lt: "j < i" by simp
  with Suc.prems have ne: "grp ! j \<noteq> grp ! i"
    by (simp add: nth_eq_iff_index_eq)
  have "nextScan grp (grp ! i) (Suc j) = Some (grp ! Suc i)"
    using Suc lt by simp
  with lt ne Suc.prems show ?case
    by (subst nextScan.simps) simp
qed

lemma prevScan_adjacent:
  assumes "distinct grp" "Suc i < length grp" "j \<le> Suc i"
  shows "prevScan grp (grp ! Suc i) j = Some (grp ! i)"
  using assms
proof (induction "Suc i - j" arbitrary: j)
  case 0
  then have "j = Suc i" by simp
  with 0 show ?case by (simp add: prevScan.simps)
next
  case (Suc d)
  then have lt: "j < Suc i" by simp
  with Suc.prems have ne: "grp ! j \<noteq> grp ! Suc i"
    by (simp add: nth_eq_iff_index_eq)
  have "prevScan grp (grp ! Suc i) (Suc j) = Some (grp ! i)"
    using Suc lt by simp
  with lt ne Suc.prems show ?case
    by (subst prevScan.simps) simp
qed

lemma prevScan_absent: "obj \<notin> set grp \<Longrightarrow> prevScan grp obj j = None"
proof (induction grp obj j rule: prevScan.induct)
  case (1 grp obj index)
  show ?case
  proof (cases "index < length grp")
    case True
    with 1 have "grp ! index \<noteq> obj" by auto
    with True 1 show ?thesis by (subst prevScan.simps) simp
  next
    case False
    then show ?thesis by (subst prevScan.simps) simp
  qed
qed

lemma nextScan_absent: "obj \<notin> set grp \<Longrightarrow> nextScan grp obj j = None"
proof (induction grp obj j rule: nextScan.induct)
  case (1 grp obj index)
  show ?case
  proof (cases "index < length grp")
    case True
    with 1 have "grp ! index \<noteq> obj" by auto
    with True 1 show ?thesis by (subst nextScan.simps) simp
  next
    case False
    then show ?thesis by (subst nextScan.simps) simp
  qed
qed

lemma getPrevious_path:
  "groupless_path st s ps a \<Longrightarrow>
   getPrevious (length ps + Suc fuel) st s (Some r) = getPrevious (Suc fuel) st a (Some r)"
  by (induction ps arbitrary: s) auto

lemma getNext_path:
  "groupless_path st s ps a \<Longrightarrow>
   getNext (length ps + Suc fuel) st s (Some r) = getNext (Suc fuel) st a (Some r)"
  by (induction ps arbitrary: s) auto

lemma getPrevious_readonly:
  "getPrevious fuel st self obj = None \<or> (\<exists>r. getPrevious fuel st self obj = Some (r, st))"
  by (induction fuel st self obj rule: getPrevious.induct)
     (auto split: option.splits)

lemma getNext_readonly:
  "getNext fuel st self obj = None \<or> (\<exists>r. getNext fuel st self obj = Some (r, st))"
  by (induction fuel st self obj rule: getNext.induct)
     (auto split: option.splits)

lemma getPrevious_returns:
  "reaches_root k st self \<Longrightarrow> \<exists>r. getPrevious (Suc k) st self obj = Some (r, st)"
proof (induction k arbitrary: self obj)
  case 0
  then show ?case by (cases obj) (auto split: option.splits)
next
  case (Suc k)
  show ?case
  proof (cases "parent (st self)")
    case None
    then show ?thesis by (cases obj) (auto split: option.splits)
  next
    case (Some p)
    with Suc.prems have "reaches_root k st p" by simp
    then have "\<And>o'. \<exists>r. getPrevious (Suc k) st p o' = Some (r, st)"
      by (rule Suc.IH)
    with Some show ?thesis
      by (cases obj) (auto split: option.splits simp del: getPrevious.simps
            simp add: getPrevious.simps(2,3) [of "Suc k"])
  qed
qed

lemma getNext_returns:
  "reaches_root k st self \<Longrightarrow> \<exists>r. getNext (Suc k) st self obj = Some (r, st)"
proof (induction k arbitrary: self obj)
  case 0
  then show ?case by (cases obj) (auto split: option.splits)
next
  case (Suc k)
  show ?case
  proof (cases "parent (st self)")
    case None
    then show ?thesis by (cases obj) (auto split: option.splits)
  next
    case (Some p)
    with Suc.prems have "reaches_root k st p" by simp
    then have "\<And>o'. \<exists>r. getNext (Suc k) st p o' = Some (r, st)"
      by (rule Suc.IH)
    with Some show ?thesis
      by (cases obj) (auto split: option.splits simp del: getNext.simps
            simp add: getNext.simps(2,3) [of "Suc k"])
  qed
qed

lemmas tree_defs = component_def ShapeBase_init_def

section \<open>Axis navigation: properties\<close>

text \<open>
  C5, as the code has it. A component without a \<open>Group\<close> property hands
  \<open>getPrevious(r)\<close> and \<open>getNext(r)\<close> to its parent with the same reference, and so on
  outward through components without a \<open>Group\<close>: the answer is the one of the first
  ancestor that has a \<open>Group\<close> (the neighbour of \<open>r\<close> there, or that ancestor itself when
  the scan finds none), and it is absent when a root without \<open>Group\<close> is reached. A
  component that has a \<open>Group\<close> never delegates: when \<open>r\<close> is not among its children,
  empty or not, it returns itself.
\<close>

theorem navigation_delegates_only_without_Group:
  "(groupless_path st s ps a \<and> Group (st a) = Some grp \<longrightarrow>
      getPrevious (length ps + Suc fuel) st s (Some r) =
        Some (Some (case prevScan grp r 0 of Some x \<Rightarrow> x | None \<Rightarrow> a), st) \<and>
      getNext (length ps + Suc fuel) st s (Some r) =
        Some (Some (case nextScan grp r 0 of Some x \<Rightarrow> x | None \<Rightarrow> a), st)) \<and>
   (groupless_path st s2 ps2 a2 \<and> Group (st a2) = None \<and> parent (st a2) = None \<longrightarrow>
      getPrevious (length ps2 + Suc fuel) st s2 (Some r) = Some (None, st) \<and>
      getNext (length ps2 + Suc fuel) st s2 (Some r) = Some (None, st)) \<and>
   (Group (st s3) = None \<and> parent (st s3) = Some p \<longrightarrow>
      getPrevious (Suc fuel) st s3 (Some r) = getPrevious fuel st p (Some r) \<and>
      getNext (Suc fuel) st s3 (Some r) = getNext fuel st p (Some r)) \<and>
   (Group (st s4) = Some grp4 \<and> r \<notin> set grp4 \<longrightarrow>
      getPrevious (Suc fuel) st s4 (Some r) = Some (Some s4, st) \<and>
      getNext (Suc fuel) st s4 (Some r) = Some (Some s4, st))"
proof -
  have a: "getPrevious (length ps + Suc fuel) st s (Some r) =
        Some (Some (case prevScan grp r 0 of Some x \<Rightarrow> x | None \<Rightarrow> a), st) \<and>
      getNext (length ps + Suc fuel) st s (Some r) =
        Some (Some (case nextScan grp r 0 of Some x \<Rightarrow> x | None \<Rightarrow> a), st)"
    if "groupless_path st s ps a" "Group (st a) = Some grp"
    using that getPrevious_path [of st s ps a fuel r] getNext_path [of st s ps a fuel r]
    by (simp split: option.split)
  have b: "getPrevious (length ps2 + Suc fuel) st s2 (Some r) = Some (None, st) \<and>
      getNext (length ps2 + Suc fuel) st s2 (Some r) = Some (None, st)"
    if "groupless_path st s2 ps2 a2" "Group (st a2) = None" "parent (st a2) = None"
    using that getPrevious_path [of st s2 ps2 a2 fuel r] getNext_path [of st s2 ps2 a2 fuel r]
    by simp
  have c: "getPrevious (Suc fuel) st s3 (Some r) = getPrevious fuel st p (Some r) \<and>
      getNext (Suc fuel) st s3 (Some r) = getNext fuel st p (Some r)"
    if "Group (st s3) = None" "parent (st s3) = Some p"
    using that by simp
  have d: "getPrevious (Suc fuel) st s4 (Some r) = Some (Some s4, st) \<and>
      getNext (Suc fuel) st s4 (Some r) = Some (Some s4, st)"
    if "Group (st s4) = Some grp4" "r \<notin> set grp4"
    using that by (simp add: prevScan_absent nextScan_absent)
  from a b c d show ?thesis by blast
qed

theorem navigation_delegates_only_without_Group_witness:
  "groupless_path tree_nav 4 [3] 3 \<and> Group (tree_nav 3) = Some [4] \<and>
   getPrevious (Suc (Suc 0)) tree_nav 4 (Some 2) = Some (Some 3, tree_nav) \<and>
   getNext (Suc (Suc 0)) tree_nav 4 (Some 2) = Some (Some 3, tree_nav) \<and>
   groupless_path tree_nav 6 [] 6 \<and> Group (tree_nav 6) = None \<and> parent (tree_nav 6) = None \<and>
   getPrevious (Suc 0) tree_nav 6 (Some 2) = Some (None, tree_nav) \<and>
   getNext (Suc 0) tree_nav 6 (Some 2) = Some (None, tree_nav) \<and>
   Group (tree_nav 4) = None \<and> parent (tree_nav 4) = Some 3 \<and>
   getPrevious (Suc 0) tree_nav 4 (Some 2) = getPrevious 0 tree_nav 3 (Some 2) \<and>
   getNext (Suc 0) tree_nav 4 (Some 2) = getNext 0 tree_nav 3 (Some 2) \<and>
   2 \<notin> set [4::nat] \<and>
   getPrevious (Suc 0) tree_nav 3 (Some 2) = Some (Some 3, tree_nav) \<and>
   getNext (Suc 0) tree_nav 3 (Some 2) = Some (Some 3, tree_nav)"
proof -
  have g3: "Group (tree_nav 3) = Some [4]" and g4: "Group (tree_nav 4) = None"
    and p4: "parent (tree_nav 4) = Some 3" and g6: "Group (tree_nav 6) = None"
    and p6: "parent (tree_nav 6) = None"
    by (simp_all add: tree_nav_def tree_defs)
  have path: "groupless_path tree_nav 4 [3] 3" "groupless_path tree_nav 6 [] 6"
    using g4 p4 by simp_all
  have scans: "prevScan [4] 2 0 = None" "nextScan [4] 2 0 = None"
    by (simp_all add: prevScan.simps nextScan.simps)
  show ?thesis
    using navigation_delegates_only_without_Group
      [of tree_nav 4 "[3]" 3 "[4]" 0 2 6 "[]" 6 4 3 3 "[4]"]
      g3 g4 p4 g6 p6 path scans
    by (simp del: getPrevious.simps getNext.simps)
qed

text \<open>
  The sentence of the spec fails on a component whose children do not hold the
  reference: stage 3 holds only 4 and has parent 0, and asked for the neighbours of 1 it
  answers with itself both times, where its parent, asked the same, answers with
  itself (1 is its first child) and with 2.
\<close>

theorem navigation_no_delegation_counterexample:
  "Group (tree_nav 3) = Some [4] \<and> 1 \<notin> set [4::nat] \<and> parent (tree_nav 3) = Some 0 \<and>
   map_option fst (getPrevious 3 tree_nav 3 (Some 1)) = Some (Some 3) \<and>
   map_option fst (getPrevious 2 tree_nav 0 (Some 1)) = Some (Some 0) \<and>
   getPrevious 3 tree_nav 3 (Some 1) \<noteq> getPrevious 2 tree_nav 0 (Some 1) \<and>
   map_option fst (getNext 3 tree_nav 3 (Some 1)) = Some (Some 3) \<and>
   map_option fst (getNext 2 tree_nav 0 (Some 1)) = Some (Some 2) \<and>
   getNext 3 tree_nav 3 (Some 1) \<noteq> getNext 2 tree_nav 0 (Some 1)"
  by (simp add: tree_nav_def tree_defs eval_nat_numeral prevScan.simps nextScan.simps)

text \<open>
  C6. In a component \<open>P\<close> whose children are distinct components, with \<open>A\<close> immediately
  before \<open>B\<close> among them, \<open>getNext\<close> on \<open>P\<close> with reference \<open>A\<close> returns \<open>B\<close> and
  \<open>getPrevious\<close> on \<open>P\<close> with reference \<open>B\<close> returns \<open>A\<close>; both return (one unit of fuel is
  enough) and leave the store as it was.
\<close>

theorem adjacent_siblings:
  assumes "Group (st P) = Some grp" "distinct grp" "Suc i < length grp"
    "grp ! i = A" "grp ! Suc i = B"
  shows "getNext (Suc fuel) st P (Some A) = Some (Some B, st) \<and>
         getPrevious (Suc fuel) st P (Some B) = Some (Some A, st)"
  using assms nextScan_adjacent [of grp i 0] prevScan_adjacent [of grp i 0]
  by auto

theorem adjacent_siblings_witness:
  "Group (tree_nav 0) = Some [1, 2, 3] \<and> distinct [1, 2, 3 :: nat] \<and>
   getNext (Suc 0) tree_nav 0 (Some 2) = Some (Some 3, tree_nav) \<and>
   getPrevious (Suc 0) tree_nav 0 (Some 3) = Some (Some 2, tree_nav)"
proof -
  have g: "Group (tree_nav 0) = Some [1, 2, 3]"
    by (simp add: tree_nav_def tree_defs)
  show ?thesis
    using adjacent_siblings [of tree_nav 0 "[1, 2, 3]" "Suc 0" 2 3 0] g
    by (simp del: getPrevious.simps getNext.simps)
qed

text \<open>
  C10. \<open>getPrevious\<close> and \<open>getNext\<close>, with or without a reference, return the store they
  were given: whenever a call returns, every component has the children, parent
  pointer, placement, type tag, version and scratch mapping it had before. And they do
  return from any component whose parent pointers reach a root.
\<close>

theorem navigation_readonly:
  "(getPrevious fuel st self obj = None \<or>
      (\<exists>r. getPrevious fuel st self obj = Some (r, st))) \<and>
   (getNext fuel st self obj = None \<or>
      (\<exists>r. getNext fuel st self obj = Some (r, st))) \<and>
   (reaches_root k st self \<longrightarrow>
      (\<exists>r. getPrevious (Suc k) st self obj = Some (r, st)) \<and>
      (\<exists>r. getNext (Suc k) st self obj = Some (r, st)))"
  using getPrevious_readonly [of fuel st self obj] getNext_readonly [of fuel st self obj]
    getPrevious_returns [of k st self obj] getNext_returns [of k st self obj]
  by blast

theorem navigation_readonly_witness:
  "reaches_root (Suc (Suc 0)) tree_nav 4 \<and>
   (\<exists>r. getPrevious (Suc (Suc (Suc 0))) tree_nav 4 None = Some (r, tree_nav)) \<and>
   (\<exists>r. getNext (Suc (Suc (Suc 0))) tree_nav 4 None = Some (r, tree_nav))"
proof -
  have r: "reaches_root (Suc (Suc 0)) tree_nav 4"
    by (simp add: tree_nav_def tree_defs)
  show ?thesis
    using navigation_readonly [of 0 tree_nav 4 None "Suc (Suc 0)"] r
    by (simp del: getPrevious.simps getNext.simps)
qed

section \<open>Placement propagation: properties\<close>

lemma positionChildren_loop_calls:
  "positionChildren_loop st self partBase grp calls =
     (st, calls @ map (\<lambda>child. PositionChild child child self partBase
                          (getAxialLength (st self)) (getForeRadius (st self))) grp)"
  by (induction grp arbitrary: calls) (simp_all add: positionChild_def)

text \<open>
  C7, as the code has it. \<open>setAxialPosition(x)\<close> writes one thing, the placement of the
  component itself: its axial coordinate becomes \<open>x\<close>, its transverse coordinates stay,
  and its rotation becomes \<open>Rotation(0,0,0)\<close> whatever it was. Then \<open>positionChildren(x)\<close>
  calls \<open>positionChild\<close> on every child, in order, with the child, this component, \<open>x\<close>,
  this component's axial length and its fore radius (no call when there is no \<open>Group\<close>).
\<close>

theorem setAxialPosition_effect:
  "setAxialPosition st n x =
     (st(n := (st n)
          \<lparr>Placement := FreeCAD_Placement
             (FreeCAD_Vector x (vec_y (Base (Placement (st n)))) (vec_z (Base (Placement (st n)))))
             (FreeCAD_Rotation 0 0 0)\<rparr>),
      map (\<lambda>child. PositionChild child child n x (getAxialLength (st n)) (getForeRadius (st n)))
        (case Group (st n) of None \<Rightarrow> [] | Some grp \<Rightarrow> grp))"
  by (simp add: setAxialPosition_def positionChildren_def positionChildren_loop_calls Let_def
           split: option.split)

text \<open>
  The rotation is a component of the placement that the call does not leave unchanged:
  tube 0 is turned by 90 degrees before and not at all after.
\<close>

theorem setAxialPosition_resets_rotation_counterexample:
  "Placement (tree_placed 0) = FreeCAD_Placement (FreeCAD_Vector 1 2 3) (FreeCAD_Rotation 90 0 0) \<and>
   Placement (fst (setAxialPosition tree_placed 0 5) 0) =
     FreeCAD_Placement (FreeCAD_Vector 5 2 3) (FreeCAD_Rotation 0 0 0) \<and>
   Rotation_of (Placement (fst (setAxialPosition tree_placed 0 5) 0)) \<noteq>
     Rotation_of (Placement (tree_placed 0)) \<and>
   snd (setAxialPosition tree_placed 0 5) = [PositionChild 1 1 0 5 0 0, PositionChild 2 2 0 5 0 0]"
  by (simp add: setAxialPosition_def positionChildren_def positionChildren_loop_calls Let_def
        tree_placed_def tree_defs)

section \<open>Tree reordering: properties\<close>

lemmas move_defs =
  moveUp_def moveDown_def reparent_def addToPrevious_def swapPrevious_def swapNext_def
  addToGrandparent_def Group_pop_def pop_def setParent_def addObject_def

text \<open>
  What three branches of the reordering do on every tree, not only on the example
  trees: the add-to-grandparent branch of \<open>_moveChildUp\<close> leaves the parent pointer
  of the moved component alone; the hoist of \<open>_moveChildDown\<close> removes the first child
  of a group of two or more and keeps the moved one; and after the merge into the
  preceding sibling \<open>_moveChildUp\<close> goes on to call itself on the parent.
\<close>

lemma grandparentScan_first:
  "A \<notin> set pre \<Longrightarrow> grandparentScan (pre @ A # post) A True k = Inl (k + length pre)"
  by (induction pre arbitrary: k) auto

lemma moveUp_into_grandparent_general:
  assumes "parent (st C) = Some A" "Group (st A) = Some (C # rest)"
    "parent (st A) = Some G" "Group (st G) = Some (pre @ A # post)" "A \<notin> set pre"
    "eligibleChild (st G) (Type (st C))" "G \<noteq> A"
  shows "moveUp (Suc (Suc fuel)) st C =
           Some (Inr (st(A := (st A)\<lparr>Group := Some rest\<rparr>,
                         G := (st G)\<lparr>Group := Some (pre @ C # A # post)\<rparr>)))"
  using assms
  by (simp add: moveUp_def addToGrandparent_def Group_pop_def pop_def grandparentScan_first)

lemma moveUp_into_grandparent_parent_pointer:
  assumes "parent (st C) = Some A" "Group (st A) = Some (C # rest)"
    "parent (st A) = Some G" "Group (st G) = Some (pre @ A # post)" "A \<notin> set pre"
    "eligibleChild (st G) (Type (st C))" "G \<noteq> A"
  shows "\<exists>st'. moveUp (Suc (Suc fuel)) st C = Some (Inr st') \<and> parent (st' C) = Some A"
  using assms moveUp_into_grandparent_general [OF assms, of fuel]
  by auto

lemma eligibleAncestor_more_fuel:
  "eligibleAncestor f st ty p = Some r \<Longrightarrow> eligibleAncestor (f + k) st ty p = Some r"
  by (induction f st ty p rule: eligibleAncestor.induct) (auto split: if_splits)

lemma moveChildDown_loop_last:
  assumes "Group (st P) = Some grp" "distinct grp" "last grp = n" "index < length grp"
    "eligibleAncestor f st (Type (st n)) (parent (st P)) = Some (Some a)"
  shows "moveChildDown_loop (Suc (length grp - Suc index + f)) st P n (int (length grp) - 1) index =
           (case reparent st P n 0 a of
              Inl e \<Rightarrow> Some (Inl e)
            | Inr st' \<Rightarrow> Some (Inr (Returned st')))"
  using assms
proof (induction "length grp - Suc index" arbitrary: index)
  case 0
  then have idx: "index = length grp - 1" by simp
  with 0 have "grp ! index = n" by (metis last_conv_nth list.size(3) not_less_zero)
  with 0 idx show ?case by simp
next
  case (Suc d)
  then have lt: "Suc index < length grp" by simp
  from Suc.prems have "n = grp ! (length grp - 1)"
    by (metis last_conv_nth list.size(3) not_less_zero)
  with Suc.prems lt have ne: "grp ! index \<noteq> n"
    by (simp add: nth_eq_iff_index_eq)
  have "length grp - Suc index + f = Suc (length grp - Suc (Suc index) + f)"
    using lt by simp
  moreover have "moveChildDown_loop (Suc (length grp - Suc (Suc index) + f)) st P n
      (int (length grp) - 1) (Suc index) =
           (case reparent st P n 0 a of
              Inl e \<Rightarrow> Some (Inl e)
            | Inr st' \<Rightarrow> Some (Inr (Returned st')))"
    using Suc lt by simp
  ultimately show ?case using ne lt Suc.prems by simp
qed

lemma moveChildDown_last_general:
  assumes "Group (st P) = Some grp" "distinct grp" "2 \<le> length grp" "last grp = n"
    "eligibleAncestor f st (Type (st n)) (parent (st P)) = Some (Some a)"
    "Group (st a) = Some agrp" "a \<noteq> P"
  shows "\<exists>st'. moveChildDown (Suc (length grp + f)) st P n = Some (Inr st') \<and>
           Group (st' P) = Some (tl grp) \<and> n \<in> set (tl grp) \<and> hd grp \<notin> set (tl grp) \<and>
           Group (st' a) = Some (agrp @ [n]) \<and> parent (st' n) = Some a"
proof -
  from assms(3) obtain x xs where grp0: "grp = x # xs"
    by (cases grp) auto
  with assms(3) have "xs \<noteq> []" by auto
  with grp0 have grp: "grp = x # xs" "xs \<noteq> []" by simp_all
  have loop: "moveChildDown_loop (length grp + f) st P n (int (length grp) - 1) 0 =
           (case reparent st P n 0 a of
              Inl e \<Rightarrow> Some (Inl e)
            | Inr st' \<Rightarrow> Some (Inr (Returned st')))"
    using moveChildDown_loop_last [of st P grp n 0 f a] assms(1,2,4,5) grp
    by (simp del: moveChildDown_loop.simps)
  have md: "moveChildDown (Suc (length grp + f)) st P n =
           (case reparent st P n 0 a of
              Inl e \<Rightarrow> Some (Inl e)
            | Inr st' \<Rightarrow> Some (Inr st'))"
    using assms(1) loop by (simp del: moveChildDown_loop.simps split: sum.split)
  have n: "n \<in> set xs" using assms(4) grp by auto
  have x: "x \<notin> set xs" using assms(2) grp by simp
  have "\<exists>st'. reparent st P n 0 a = Inr st' \<and> Group (st' P) = Some (tl grp) \<and>
           Group (st' a) = Some (agrp @ [n]) \<and> parent (st' n) = Some a"
    using assms(1,6,7) grp
    by (auto simp add: reparent_def Group_pop_def pop_def setParent_def addObject_def)
  then obtain st' where st': "reparent st P n 0 a = Inr st'" "Group (st' P) = Some (tl grp)"
    "Group (st' a) = Some (agrp @ [n])" "parent (st' n) = Some a"
    by blast
  have "moveChildDown (Suc (length grp + f)) st P n = Some (Inr st')"
    by (simp only: md st'(1) sum.case)
  moreover have "n \<in> set (tl grp)" "hd grp \<notin> set (tl grp)"
    using n x grp by simp_all
  ultimately show ?thesis using st' by blast
qed


lemma moveChildUp_loop_no_match:
  "Group (st P) = Some grp \<Longrightarrow> n \<notin> set (drop pos grp) \<Longrightarrow> length grp - pos < fuel \<Longrightarrow>
   moveChildUp_loop fuel st P n pos index = Some (Inr (Completed st))"
proof (induction fuel arbitrary: pos index)
  case 0
  then show ?case by simp
next
  case (Suc fuel)
  show ?case
  proof (cases "length grp \<le> pos")
    case True
    with Suc.prems show ?thesis by simp
  next
    case False
    then have "grp ! pos \<in> set (drop pos grp)"
      by (metis Cons_nth_drop_Suc list.set_intros(1) not_le)
    with Suc.prems have ne: "grp ! pos \<noteq> n" by auto
    have "set (drop (Suc pos) grp) \<subseteq> set (drop pos grp)"
      by (simp add: set_drop_subset_set_drop)
    with Suc.prems have "n \<notin> set (drop (Suc pos) grp)" by auto
    moreover have "length grp - Suc pos < fuel" using Suc.prems False by simp
    ultimately have "moveChildUp_loop fuel st P n (Suc pos) (Suc index) = Some (Inr (Completed st))"
      using Suc.IH Suc.prems(1) by blast
    with False ne Suc.prems(1) show ?thesis by simp
  qed
qed

lemma moveChildUp_loop_scan:
  assumes "Group (st P) = Some grp" "distinct grp" "i < length grp" "grp ! i = n" "pos \<le> i"
  shows "moveChildUp_loop (i - pos + fuel) st P n pos pos = moveChildUp_loop fuel st P n i i"
  using assms(5)
proof (induction "i - pos" arbitrary: pos)
  case 0
  then show ?case by simp
next
  case (Suc d)
  then have lt: "pos < i" by simp
  from assms(2,3) lt have "grp ! pos \<noteq> grp ! i" by (simp add: nth_eq_iff_index_eq)
  with assms(4) have ne: "grp ! pos \<noteq> n" by simp
  have f: "i - pos + fuel = Suc (i - Suc pos + fuel)" using lt by simp
  have "moveChildUp_loop (i - Suc pos + fuel) st P n (Suc pos) (Suc pos) =
        moveChildUp_loop fuel st P n i i"
    using Suc lt by simp
  with ne lt assms(1,3) show ?case by (simp add: f)
qed

lemma moveChildUp_merge_general:
  assumes "Group (st P) = Some grp" "distinct grp" "P \<notin> set grp" "0 < i" "i < length grp"
    "grp ! i = n" "eligibleChild (st (grp ! (i - 1))) (Type (st n))"
    "Group (st (grp ! (i - 1))) = Some sgrp"
  shows "\<exists>st'. Group (st' P) = Some (take i grp @ drop (Suc i) grp) \<and>
           parent (st' n) = Some (grp ! (i - 1)) \<and>
           Group (st' (grp ! (i - 1))) = Some (sgrp @ [n]) \<and>
           moveChildUp (Suc (Suc (i + length grp))) st P n =
             (case parent (st P) of
                None \<Rightarrow> Some (Inr st')
              | Some G \<Rightarrow> moveChildUp (Suc (i + length grp)) st' G P)"
proof -
  let ?S = "grp ! (i - 1)"
  let ?grp' = "take i grp @ drop (Suc i) grp"
  have S: "?S \<in> set grp" "n \<in> set grp" using assms(4,5,6) by auto
  with assms(3) have SP: "?S \<noteq> P" "n \<noteq> P" by auto
  from assms(2,4,5) have "?S \<noteq> grp ! i" by (simp add: nth_eq_iff_index_eq)
  with assms(6) have Sn: "?S \<noteq> n" by simp
  have nth': "?grp' ! (i - 1) = ?S" using assms(4,5) by (simp add: nth_append)
  have "\<exists>st'. addToPrevious st P n i = Inr st' \<and> Group (st' P) = Some ?grp' \<and>
           parent (st' n) = Some ?S \<and> Group (st' ?S) = Some (sgrp @ [n]) \<and>
           parent (st' P) = parent (st P)"
    using assms(1,4,5,8) SP Sn nth'
    by (auto simp add: addToPrevious_def Group_pop_def pop_def setParent_def addObject_def)
  then obtain st' where st': "addToPrevious st P n i = Inr st'" "Group (st' P) = Some ?grp'"
    "parent (st' n) = Some ?S" "Group (st' ?S) = Some (sgrp @ [n])"
    "parent (st' P) = parent (st P)"
    by blast
  have "grp = take i grp @ grp ! i # drop (Suc i) grp"
    using assms(5) by (simp add: id_take_nth_drop)
  with assms(2) have "distinct (take i grp @ grp ! i # drop (Suc i) grp)" by simp
  then have "grp ! i \<notin> set ?grp'" by auto
  with assms(6) have "n \<notin> set ?grp'" by simp
  then have "n \<notin> set (drop (Suc i) ?grp')" by (meson in_set_dropD)
  then have rest: "moveChildUp_loop (length grp) st' P n (Suc i) (Suc i) = Some (Inr (Completed st'))"
    using moveChildUp_loop_no_match [of st' P ?grp' n "Suc i" "length grp" "Suc i"] st'(2) assms(5)
    by simp
  have at_i: "moveChildUp_loop (Suc (length grp)) st P n i i = Some (Inr (Completed st'))"
    using assms(1,4,5,6,7) st'(1) rest by simp
  have "moveChildUp_loop (i + Suc (length grp)) st P n 0 0 = Some (Inr (Completed st'))"
    using moveChildUp_loop_scan [of st P grp i n 0 "Suc (length grp)"] assms(1,2,5,6) at_i
    by (simp del: moveChildUp_loop.simps)
  then have "moveChildUp (Suc (Suc (i + length grp))) st P n =
             (case parent (st P) of
                None \<Rightarrow> Some (Inr st')
              | Some G \<Rightarrow> moveChildUp (Suc (i + length grp)) st' G P)"
    using assms(1) st'(5) by (simp del: moveChildUp_loop.simps split: option.split)
  with st' show ?thesis by blast
qed


text \<open>
  C2. \<open>moveUp\<close> on a first child whose grandparent accepts its type should insert it
  in the grandparent's children immediately before its former parent, remove it from
  the former parent's children and make its parent pointer designate the grandparent.
  The code does the first two and not the third. \<open>moveUp\<close> on fin 2, first child of
  stage 1 whose parent, rocket 0, accepts fins:
  the rocket's children become \<open>[2, 1]\<close> and the stage's \<open>[3]\<close>, as the spec says, but
  the fin's parent pointer is still the stage, not the rocket.
\<close>

theorem moveUp_into_grandparent_keeps_old_parent:
  "shapes [0, 1, 2, 3] (moveUp 5 tree_up 2) =
     Some (Inr [(None, Some [2, 1]), (Some 0, Some [3]), (Some 1, None), (Some 1, None)])"
  by (simp add: shapes_def tree_up_def tree_defs move_defs eval_nat_numeral)

text \<open>
  C3. \<open>_moveChildUp\<close> for a child at an index above 0 whose preceding sibling accepts
  its type should move the child into that sibling and modify nothing else. The code
  modifies more. \<open>_moveChildUp\<close> on stage 2 with fin 4, whose preceding sibling, tube 3,
  accepts fins: the fin leaves the stage, gets tube 3 as parent and is appended to the tube's
  children, as the spec says; but the loop goes on, the method reaches its last
  statement and calls \<open>_moveChildUp\<close> on the rocket for the stage, which swaps the
  stage with nose cone 1: the rocket's children change from \<open>[1, 2]\<close> to \<open>[2, 1]\<close>.
\<close>

theorem moveChildUp_merge_also_moves_parent:
  "shapes [0, 1, 2, 3, 4] (Some (Inr tree_merge)) =
     Some (Inr [(None, Some [1, 2]), (Some 0, None), (Some 0, Some [3, 4]),
                (Some 2, Some []), (Some 2, None)]) \<and>
   shapes [0, 1, 2, 3, 4] (moveChildUp 5 tree_merge 2 4) =
     Some (Inr [(None, Some [2, 1]), (Some 0, None), (Some 0, Some [3]),
                (Some 2, Some [4]), (Some 3, None)])"
  by (simp add: shapes_def tree_merge_def tree_defs move_defs eval_nat_numeral)


end
